theory Spec2Isabelle
  imports Main
begin

section \<open>JavaScript values and strings\<close>

text \<open>
  Strings are lists of characters. The characters of the model are the code units of
  the ASCII range: \<open>trim\<close> removes the ASCII white space (tab, line feed, vertical tab,
  form feed, carriage return, space) and \<open>toUpperCase\<close> maps \<open>a..z\<close> to \<open>A..Z\<close>
  and leaves every other character alone.
\<close>

definition isWhiteSpace :: "char \<Rightarrow> bool" where
  "isWhiteSpace c = (c \<in> set [CHR 0x09, CHR 0x0A, CHR 0x0B, CHR 0x0C, CHR 0x0D, CHR '' ''])"

definition trim :: "string \<Rightarrow> string" where
  "trim s = rev (dropWhile isWhiteSpace (rev (dropWhile isWhiteSpace s)))"

definition toUpperCase_char :: "char \<Rightarrow> char" where
  "toUpperCase_char c =
     (let n = (of_char c :: nat)
      in if 97 \<le> n \<and> n \<le> 122 then char_of (n - 32) else c)"

definition toUpperCase :: "string \<Rightarrow> string" where
  "toUpperCase s = map toUpperCase_char s"

text \<open>\<open>Array.prototype.join\<close> on an array of strings.\<close>

fun join :: "string \<Rightarrow> string list \<Rightarrow> string" where
  "join sep [] = []"
| "join sep [x] = x"
| "join sep (x # y # ys) = x @ sep @ join sep (y # ys)"

text \<open>
  The values a caller can pass. Numbers are the integers (no property below looks at a
  fraction). An object is the list of its own enumerable properties in the order
  \<open>Object.keys\<close> reports them.
\<close>

datatype jsval =
    JUndefined
  | JNull
  | JBool bool
  | JNum int
  | JStr string
  | JArr "jsval list"
  | JObj "(string \<times> jsval) list"

type_synonym jsobject = "(string \<times> jsval) list"

text \<open>
  Exceptions raised by the runtime or by a collaborator. \<open>TypeError\<close> carries the
  expression whose evaluation failed.
\<close>

datatype exn = TypeError string | SyntaxError string | External string

section \<open>lib/db/createOperationDB.js\<close>

subsection \<open>The helpers imported from lib/utils\<close>

text \<open>
  Modelled from the spec: \<open>capitalize\<close> of lib/utils is not among the sources. The spec
  says that entity names are resolved by ``trimming whitespace and capitalizing the
  first letter'': the first character is upper-cased and the rest is kept. (The spec
  also calls the resolution case-insensitive; no property below depends on what
  \<open>capitalize\<close> does to the letters after the first.)
\<close>

fun capitalize :: "string \<Rightarrow> string" where
  "capitalize [] = []"
| "capitalize (c # cs) = toUpperCase_char c # cs"

text \<open>
  Modelled from the spec: \<open>findOnlyUniqueElements\<close> of lib/utils is not among the
  sources. The spec says that the validator ``computes the set of record keys not
  present in {schema fields} \<union> {identifier field}'', the offending keys ``in input
  order'': the elements of the first array that occur in none of the others, in the
  order of the first array.
\<close>

definition findOnlyUniqueElements :: "string list \<Rightarrow> string list \<Rightarrow> string list \<Rightarrow> string list" where
  "findOnlyUniqueElements xs ys zs = filter (\<lambda>x. x \<notin> set ys \<and> x \<notin> set zs) xs"

subsection \<open>The model registry and its collaborators\<close>

text \<open>
  \<open>dataModels\<close> (lib/db/models) is a parameter: a map from the names of its own
  properties to the models. Of a model the code uses the keys of \<open>schema.obj\<close>, and
  three operations of the object-document mapper, which answer as the storage decides:
  \<open>validate\<close> resolves (\<open>None\<close>) or rejects with an error, \<open>bulkWrite\<close> rejects or
  resolves with \<open>insertedIds\<close>, and \<open>save\<close> (on a freshly constructed document)
  rejects or resolves with the stored document. A batch is resolved when all its
  operations were carried out, and \<open>insertedIds\<close> then holds, under the index of each
  \<open>insertOne\<close> operation of the batch, the \<open>_id\<close> of the document inserted: it is the
  function from the index of an operation to that \<open>_id\<close>. The answers are those of the moment of the call; what \<open>validate\<close>
  casts inside the record is left out.
\<close>

datatype objectId = ObjectId string


datatype bulk_op = InsertOne jsval

record model =
  schema_obj_keys :: "string list"
  validate :: "jsobject \<Rightarrow> string list \<Rightarrow> exn option"
  bulkWrite :: "bulk_op list \<Rightarrow> exn + (nat \<Rightarrow> objectId)"
  save :: "jsobject \<Rightarrow> exn + jsobject"

type_synonym registry = "string \<rightharpoonup> model"

text \<open>The calls a function makes on its collaborators, in the order it makes them.\<close>

datatype db_call =
    Call_validate string jsobject "string list"
  | Call_bulkWrite string "bulk_op list"
  | Call_save string jsobject
  | Console_log exn

subsection \<open>validatorOneDoc\<close>

text \<open>
  The \<open>Error\<close> values \<open>validatorOneDoc\<close> returns, one constructor for each
  \<open>new Error(...)\<close> of the source, and one for the error of \<open>validate\<close> that the
  \<open>catch\<close> returns:
  \<^item> \<open>Not_a_string v\<close>: ``v is not a string. modelName must be a string'';
  \<^item> \<open>Not_a_valid_model n\<close>: ``"n" is not a valid model'';
  \<^item> \<open>Not_an_object v\<close>: ``v is not an object. data must be an object'';
  \<^item> \<open>Keys_not_allowed m\<close>: the message \<open>m\<close> of the unexpected-keys error;
  \<^item> \<open>Validate_rejected e\<close>: the error \<open>e\<close> thrown by \<open>validate\<close>.
\<close>

datatype verror =
    Not_a_string jsval
  | Not_a_valid_model string
  | Not_an_object jsval
  | Keys_not_allowed string
  | Validate_rejected exn

text \<open>
  The function throws (line 38, on an empty name), returns an \<open>Error\<close> value, or
  returns the pair of the processed model name and the data.
\<close>

datatype validator_result =
    Thrown exn
  | Error_value verror
  | Validated string jsobject

text \<open>
  Lines 36 to 38: \<open>capitalize(modelName.trim())\<close>, then
  \<open>processedModelName[0].toUpperCase() + processedModelName.slice(1)\<close>. On the empty
  string \<open>processedModelName[0]\<close> is \<open>undefined\<close> and the call of \<open>toUpperCase\<close> on it
  throws a TypeError.
\<close>

definition processModelName :: "string \<Rightarrow> exn + string" where
  "processModelName modelName =
     (case capitalize (trim modelName) of
        [] \<Rightarrow> Inl (TypeError ''processedModelName[0].toUpperCase'')
      | c # cs \<Rightarrow> Inr (toUpperCase [c] @ cs))"

definition keys_not_allowed_message :: "string list \<Rightarrow> string list \<Rightarrow> string" where
  "keys_not_allowed_message extraKeys modelSchemaKeys =
     ''The following keys are not allowed: '' @ join '', '' extraKeys @
     '', Only '' @ join '', '' modelSchemaKeys @ '' are allowed''"

definition validatorOneDoc :: "registry \<Rightarrow> jsval \<Rightarrow> jsval \<Rightarrow> validator_result \<times> db_call list" where
  "validatorOneDoc dataModels modelName data =
     (case modelName of
        JStr name \<Rightarrow>
          (case processModelName name of
             Inl e \<Rightarrow> (Thrown e, [])
           | Inr processedModelName \<Rightarrow>
               (case dataModels processedModelName of
                  None \<Rightarrow> (Error_value (Not_a_valid_model processedModelName), [])
                | Some m \<Rightarrow>
                    (case data of
                       JObj kvs \<Rightarrow>
                         (let modelSchemaKeys = schema_obj_keys m;
                              dataKeys = map fst kvs;
                              extraKeys = findOnlyUniqueElements dataKeys
                                (modelSchemaKeys @ [''_id'']) (modelSchemaKeys @ [''_id''])
                          in if length extraKeys > 0
                             then (Error_value (Keys_not_allowed
                                     (keys_not_allowed_message extraKeys modelSchemaKeys)), [])
                             else (case validate m kvs modelSchemaKeys of
                                     None \<Rightarrow>
                                       (Validated processedModelName kvs,
                                        [Call_validate processedModelName kvs modelSchemaKeys])
                                   | Some error \<Rightarrow>
                                       (Error_value (Validate_rejected error),
                                        [Call_validate processedModelName kvs modelSchemaKeys])))
                     | _ \<Rightarrow> (Error_value (Not_an_object data), []))))
      | _ \<Rightarrow> (Error_value (Not_a_string modelName), []))"

subsection \<open>createOneDoc\<close>

text \<open>
  \<open>createOneDoc\<close> throws the \<open>Error\<close> value of the validator, or an exception (that
  of the validator, or the one of \<open>save\<close>, logged first), or returns the saved document.
\<close>

datatype create_result =
    Throws_error verror
  | Throws exn
  | Returns jsobject

definition createOneDoc :: "registry \<Rightarrow> jsval \<Rightarrow> jsval \<Rightarrow> create_result \<times> db_call list" where
  "createOneDoc dataModels modelName data =
     (case validatorOneDoc dataModels modelName data of
        (Thrown e, calls) \<Rightarrow> (Throws e, calls)
      | (Error_value err, calls) \<Rightarrow> (Throws_error err, calls)
      | (Validated name kvs, calls) \<Rightarrow>
          (case dataModels name of
             None \<Rightarrow> (Throws (TypeError ''new dataModels[result.modelName]''),
                       calls @ [Console_log (TypeError ''new dataModels[result.modelName]'')])
           | Some m \<Rightarrow>
               (case save m kvs of
                  Inl error \<Rightarrow> (Throws error, calls @ [Call_save name kvs, Console_log error])
                | Inr doc \<Rightarrow> (Returns doc, calls @ [Call_save name kvs]))))"

subsection \<open>createManyDocs\<close>



subsection \<open>Reading the results\<close>

text \<open>
  The source tells its \<open>Error\<close> values apart by their messages only. The kinds of
  the error taxonomy are read off the messages: the two ``is not ...'' type checks,
  the unknown model, the unexpected keys, and the rejection by the schema's own rules.
\<close>

datatype error_kind = TypeMismatch | UnknownEntity | UnexpectedFields | FieldValidationFailed

fun kind_of :: "verror \<Rightarrow> error_kind" where
  "kind_of (Not_a_string v) = TypeMismatch"
| "kind_of (Not_a_valid_model n) = UnknownEntity"
| "kind_of (Not_an_object v) = TypeMismatch"
| "kind_of (Keys_not_allowed m) = UnexpectedFields"
| "kind_of (Validate_rejected e) = FieldValidationFailed"

text \<open>\<open>typeof v === "string"\<close>.\<close>

fun is_string :: "jsval \<Rightarrow> bool" where
  "is_string (JStr s) = True"
| "is_string v = False"

text \<open>\<open>typeof v === "object" && v !== null && !Array.isArray(v)\<close>.\<close>

fun is_plain_object :: "jsval \<Rightarrow> bool" where
  "is_plain_object (JObj kvs) = True"
| "is_plain_object v = False"



subsection \<open>A small registry for the concrete examples\<close>

definition user_model :: model where
  "user_model =
     \<lparr>schema_obj_keys = [''email'', ''firstName''],
      validate = (\<lambda>doc paths. None),
      bulkWrite = (\<lambda>ops. Inr (\<lambda>index. ObjectId ''64f0'')),
      save = (\<lambda>doc. Inr doc)\<rparr>"

definition booking_model :: model where
  "booking_model =
     \<lparr>schema_obj_keys = [''userId'', ''total''],
      validate = (\<lambda>doc paths. None),
      bulkWrite =
        (\<lambda>ops. Inr (\<lambda>index. [ObjectId ''65a1'', ObjectId ''65a2'', ObjectId ''65a3''] ! index)),
      save = (\<lambda>doc. Inr doc)\<rparr>"

definition example_models :: registry where
  "example_models = [''User'' \<mapsto> user_model, ''Booking'' \<mapsto> booking_model]"

section \<open>The signup action (src/unnamed/part_000)\<close>

subsection \<open>Objects, truthiness and the JSON decoder\<close>

text \<open>Reading a property: \<open>undefined\<close> when the object has no such property.\<close>

definition get_property :: "jsobject \<Rightarrow> string \<Rightarrow> jsval" where
  "get_property obj k = (case map_of obj k of None \<Rightarrow> JUndefined | Some v \<Rightarrow> v)"

text \<open>
  \<open>Object.fromEntries\<close>: a later entry of the same name replaces the value of the
  earlier one. The value of a form entry is a string or a file; of a file the
  validation below sees only that it is an object and not a string.
\<close>

fun set_property :: "string \<Rightarrow> jsval \<Rightarrow> jsobject \<Rightarrow> jsobject" where
  "set_property k v [] = [(k, v)]"
| "set_property k v ((k', v') # obj) =
     (if k = k' then (k, v) # obj else (k', v') # set_property k v obj)"

definition Object_fromEntries :: "(string \<times> jsval) list \<Rightarrow> jsobject" where
  "Object_fromEntries entries = fold (\<lambda>(k, v). set_property k v) entries []"

text \<open>\<open>Boolean(v)\<close>.\<close>

fun Boolean :: "jsval \<Rightarrow> bool" where
  "Boolean JUndefined = False"
| "Boolean JNull = False"
| "Boolean (JBool b) = b"
| "Boolean (JNum n) = (n \<noteq> 0)"
| "Boolean (JStr s) = (s \<noteq> [])"
| "Boolean (JArr vs) = True"
| "Boolean (JObj kvs) = True"

text \<open>
  \<open>Object.values(v)\<close>: a TypeError on \<open>null\<close> and \<open>undefined\<close>, the characters of a
  string, nothing for a number or a boolean.
\<close>

fun Object_values :: "jsval \<Rightarrow> exn + jsval list" where
  "Object_values JUndefined = Inl (TypeError ''Object.values(undefined)'')"
| "Object_values JNull = Inl (TypeError ''Object.values(null)'')"
| "Object_values (JBool b) = Inr []"
| "Object_values (JNum n) = Inr []"
| "Object_values (JStr s) = Inr (map (\<lambda>c. JStr [c]) s)"
| "Object_values (JArr vs) = Inr vs"
| "Object_values (JObj kvs) = Inr (map snd kvs)"

text \<open>
  What the action takes from its surroundings and the sources do not hold: the
  pattern of the validation library for e-mail addresses, the decoder \<open>JSON.parse\<close> on
  a string (\<open>None\<close> when it throws a SyntaxError), and the helper \<open>isValidJSON\<close> of
  lib/utils on a string or on \<open>undefined\<close> (\<open>None\<close>). They are parameters.
\<close>

record env =
  email_regex :: "string \<Rightarrow> bool"
  JSON_parse :: "string \<Rightarrow> jsval option"
  isValidJSON :: "string option \<Rightarrow> bool"

subsection \<open>The schemas of the validation library\<close>

text \<open>
  The result of parsing a value, as the validation library (zod) has it: valid with a
  value, dirty with a value (a check failed and parsing went on), or aborted (the
  type was wrong). The issues found are collected beside it, each with its path and
  its message, in the order they are found.
\<close>

datatype 'a parse_return = OK 'a | DIRTY 'a | INVALID

type_synonym issue = "string list \<times> string"

text \<open>The value of a result that is not aborted, and whether a result is dirty.\<close>

fun as_value :: "'a parse_return \<Rightarrow> 'a option" where
  "as_value (OK v) = Some v"
| "as_value (DIRTY v) = Some v"
| "as_value INVALID = None"

fun is_dirty :: "'a parse_return \<Rightarrow> bool" where
  "is_dirty (DIRTY v) = True"
| "is_dirty r = False"

text \<open>
  The type the library reports for a value, and the message of its type issue in the
  words of its default error map (version 3 of the library).
\<close>

fun parsed_type :: "jsval \<Rightarrow> string" where
  "parsed_type JUndefined = ''undefined''"
| "parsed_type JNull = ''null''"
| "parsed_type (JBool b) = ''boolean''"
| "parsed_type (JNum n) = ''number''"
| "parsed_type (JStr s) = ''string''"
| "parsed_type (JArr vs) = ''array''"
| "parsed_type (JObj kvs) = ''object''"

definition invalid_type_message :: "string \<Rightarrow> jsval \<Rightarrow> string" where
  "invalid_type_message expected v =
     (if v = JUndefined then ''Required''
      else ''Expected '' @ expected @ '', received '' @ parsed_type v)"

text \<open>
  The checks of a string schema, in the order the source chains them. \<open>trim\<close>
  replaces the value; \<open>min\<close>, \<open>regex\<close> and \<open>email\<close> add an issue with their message
  when they fail, and the checks after them still run.
\<close>

datatype check =
    Trim
  | Min nat string
  | Regex "string \<Rightarrow> bool" string
  | Email string

fun apply_checks :: "(string \<Rightarrow> bool) \<Rightarrow> check list \<Rightarrow> string \<Rightarrow> string \<times> string list" where
  "apply_checks em [] s = (s, [])"
| "apply_checks em (Trim # cs) s = apply_checks em cs (trim s)"
| "apply_checks em (Min n msg # cs) s =
     (case apply_checks em cs s of (v, msgs) \<Rightarrow> (v, if length s < n then msg # msgs else msgs))"
| "apply_checks em (Regex r msg # cs) s =
     (case apply_checks em cs s of (v, msgs) \<Rightarrow> (v, if r s then msgs else msg # msgs))"
| "apply_checks em (Email msg # cs) s =
     (case apply_checks em cs s of (v, msgs) \<Rightarrow> (v, if em s then msgs else msg # msgs))"

text \<open>
  \<open>z.string()\<close> with its checks: a value that is not a string aborts with the type
  issue; a string is valid when no check fails and dirty otherwise.
\<close>

definition z_string ::
  "(string \<Rightarrow> bool) \<Rightarrow> check list \<Rightarrow> string list \<Rightarrow> jsval \<Rightarrow> string parse_return \<times> issue list" where
  "z_string em checks path input =
     (case input of
        JStr s \<Rightarrow>
          (case apply_checks em checks s of
             (v, []) \<Rightarrow> (OK v, [])
           | (v, msgs) \<Rightarrow> (DIRTY v, map (\<lambda>msg. (path, msg)) msgs))
      | _ \<Rightarrow> (INVALID, [(path, invalid_type_message ''string'' input)]))"

text \<open>The two patterns of the source: \<open>/^\d+$/\<close> and \<open>/on/\<close>.\<close>

definition regex_digits :: "string \<Rightarrow> bool" where
  "regex_digits s = (s \<noteq> [] \<and> list_all (\<lambda>c. c \<in> set ''0123456789'') s)"

fun regex_on :: "string \<Rightarrow> bool" where
  "regex_on (a # b # cs) = ((a = CHR ''o'' \<and> b = CHR ''n'') \<or> regex_on (b # cs))"
| "regex_on cs = False"

record phone =
  number :: string
  dialCode :: string

text \<open>
  \<open>phoneSchema\<close>: an object schema. A value that is not an object aborts with the
  type issue. The fields are parsed in the order of the shape; the object aborts when
  a field aborts, is dirty when a field is dirty, and is valid otherwise.
\<close>

definition phoneSchema :: "(string \<Rightarrow> bool) \<Rightarrow> string list \<Rightarrow> jsval \<Rightarrow> phone parse_return \<times> issue list" where
  "phoneSchema em path input =
     (case input of
        JObj obj \<Rightarrow>
          (let (r1, i1) = z_string em
                 [Trim, Regex regex_digits ''Invalid phone number. Only numbers are allowed'']
                 (path @ [''number'']) (get_property obj ''number'');
               (r2, i2) = z_string em [Trim, Min 1 ''Dial code is required'']
                 (path @ [''dialCode'']) (get_property obj ''dialCode'')
           in (case (as_value r1, as_value r2) of
                 (Some n, Some d) \<Rightarrow>
                   (if is_dirty r1 \<or> is_dirty r2 then DIRTY \<lparr>number = n, dialCode = d\<rparr>
                    else OK \<lparr>number = n, dialCode = d\<rparr>)
               | _ \<Rightarrow> INVALID,
               i1 @ i2))
      | _ \<Rightarrow> (INVALID, [(path, invalid_type_message ''object'' input)]))"

text \<open>
  The \<open>transform\<close> of the phone field (lines 121 to 130), on a string or on
  \<open>undefined\<close> (\<open>None\<close>). \<open>JSON.parse(undefined)\<close> throws a SyntaxError, as it does on
  a string that is not JSON. The result is the decoded value, or \<open>undefined\<close>
  (\<open>None\<close>).
\<close>

definition phone_transform :: "env \<Rightarrow> string option \<Rightarrow> exn + jsval option" where
  "phone_transform E val =
     (if isValidJSON E val then
        (case (case val of None \<Rightarrow> None | Some s \<Rightarrow> JSON_parse E s) of
           None \<Rightarrow> Inl (SyntaxError ''JSON.parse(val)'')
         | Some p \<Rightarrow>
             (case Object_values p of
                Inl e \<Rightarrow> Inl e
              | Inr values \<Rightarrow> Inr (if list_ex Boolean values then Some p else None)))
      else Inr None)"

text \<open>
  \<open>z.string().optional()\<close>: \<open>undefined\<close> is valid, any other value is parsed as a
  string.
\<close>

definition z_string_optional ::
  "(string \<Rightarrow> bool) \<Rightarrow> string list \<Rightarrow> jsval \<Rightarrow> string option parse_return \<times> issue list" where
  "z_string_optional em path input =
     (case input of
        JUndefined \<Rightarrow> (OK None, [])
      | _ \<Rightarrow> (case z_string em [] path input of (r, i) \<Rightarrow> (map_parse_return Some r, i)))"

text \<open>
  The phone field: \<open>z.string().optional()\<close>, then the transform, which runs only on a
  valid value (a string schema without checks is valid or aborted, never dirty), then
  \<open>.pipe(phoneSchema.optional())\<close>, where \<open>undefined\<close> is valid and any other value
  is parsed by \<open>phoneSchema\<close>. An exception of the transform leaves the parser.
\<close>

definition phone_field :: "env \<Rightarrow> string list \<Rightarrow> jsval \<Rightarrow> exn + phone option parse_return \<times> issue list" where
  "phone_field E path input =
     (case z_string_optional (email_regex E) path input of
        (OK val, i) \<Rightarrow>
          (case phone_transform E val of
             Inl e \<Rightarrow> Inl e
           | Inr None \<Rightarrow> Inr (OK None, i)
           | Inr (Some p) \<Rightarrow>
               (case phoneSchema (email_regex E) path p of
                  (r, i') \<Rightarrow> Inr (map_parse_return Some r, i @ i')))
      | (r, i) \<Rightarrow> Inr (INVALID, i))"

record signup_data =
  email :: string
  password :: string
  confirmPassword :: string
  firstname :: string
  lastname :: string
  acceptTerms :: string
  phone :: "phone option"

text \<open>
  The object of \<open>signupSchema\<close> (lines 111 to 132): the seven fields are parsed in the
  order of the shape and their issues collected in that order; the object aborts when
  a field aborts, is dirty when a field is dirty, and is valid otherwise. Keys that
  the shape does not name are dropped.
\<close>

definition signup_object :: "env \<Rightarrow> jsobject \<Rightarrow> exn + signup_data parse_return \<times> issue list" where
  "signup_object E data =
     (let em = email_regex E;
          (r1, i1) = z_string em
            [Trim, Min 1 ''Email is required'', Email ''Invalid email address'']
            [''email''] (get_property data ''email'');
          (r2, i2) = z_string em [Min 8 ''Password must be at least 8 characters'']
            [''password''] (get_property data ''password'');
          (r3, i3) = z_string em [Min 1 ''Confirm password is required'']
            [''confirmPassword''] (get_property data ''confirmPassword'');
          (r4, i4) = z_string em [Trim, Min 1 ''First name is required'']
            [''firstname''] (get_property data ''firstname'');
          (r5, i5) = z_string em [Trim, Min 1 ''Last name is required'']
            [''lastname''] (get_property data ''lastname'');
          (r6, i6) = z_string em
            [Regex regex_on ''You must accept the terms and conditions'']
            [''acceptTerms''] (get_property data ''acceptTerms'')
      in case phone_field E [''phone''] (get_property data ''phone'') of
           Inl e \<Rightarrow> Inl e
         | Inr (r7, i7) \<Rightarrow>
             Inr (case (as_value r1, as_value r2, as_value r3, as_value r4, as_value r5,
                        as_value r6, as_value r7) of
                    (Some v1, Some v2, Some v3, Some v4, Some v5, Some v6, Some v7) \<Rightarrow>
                      (let v = \<lparr>email = v1, password = v2, confirmPassword = v3,
                                firstname = v4, lastname = v5, acceptTerms = v6, phone = v7\<rparr>
                       in if is_dirty r1 \<or> is_dirty r2 \<or> is_dirty r3 \<or> is_dirty r4 \<or>
                             is_dirty r5 \<or> is_dirty r6 \<or> is_dirty r7
                          then DIRTY v else OK v)
                  | _ \<Rightarrow> INVALID,
                  i1 @ i2 @ i3 @ i4 @ i5 @ i6 @ i7))"

text \<open>
  \<open>signupSchema\<close>: the object with its \<open>refine\<close> (lines 133 to 136). The refinement
  does not run on an aborted object. On a valid or a dirty one it compares the two
  passwords and, when they differ, adds its issue at the path \<open>confirmPassword\<close>
  after the issues of the fields.
\<close>

definition signupSchema :: "env \<Rightarrow> jsobject \<Rightarrow> exn + signup_data parse_return \<times> issue list" where
  "signupSchema E data =
     (case signup_object E data of
        Inl e \<Rightarrow> Inl e
      | Inr (INVALID, issues) \<Rightarrow> Inr (INVALID, issues)
      | Inr (DIRTY v, issues) \<Rightarrow>
          (if password v = confirmPassword v then Inr (DIRTY v, issues)
           else Inr (DIRTY v, issues @ [([''confirmPassword''], ''Passwords do not match'')]))
      | Inr (OK v, issues) \<Rightarrow>
          (if password v = confirmPassword v then Inr (OK v, issues)
           else Inr (DIRTY v, issues @ [([''confirmPassword''], ''Passwords do not match'')])))"

subsection \<open>validateSignupFormData\<close>

text \<open>
  \<open>safeParse\<close> succeeds on a valid result only. On a failure the loop of lines 143
  to 145 stores each issue's message under the first element of its path, a later
  issue replacing an earlier one of the same key.
\<close>

datatype validation =
    Validation_failure "string \<rightharpoonup> string"
  | Validation_success signup_data

definition path0 :: "string list \<Rightarrow> string" where
  "path0 p = (case p of [] \<Rightarrow> ''undefined'' | k # ks \<Rightarrow> k)"

definition collect_errors :: "issue list \<Rightarrow> (string \<rightharpoonup> string)" where
  "collect_errors issues = fold (\<lambda>(p, msg) errors. errors(path0 p \<mapsto> msg)) issues Map.empty"

definition validateSignupFormData :: "env \<Rightarrow> jsobject \<Rightarrow> exn + validation" where
  "validateSignupFormData E formData =
     (case signupSchema E formData of
        Inl e \<Rightarrow> Inl e
      | Inr (OK v, issues) \<Rightarrow> Inr (Validation_success v)
      | Inr (r, issues) \<Rightarrow> Inr (Validation_failure (collect_errors issues)))"

subsection \<open>signUpAction and its collaborators\<close>

text \<open>
  The calls the action makes on its collaborators, each with its arguments:
  \<open>User.exists({email})\<close>, \<open>bcrypt.hash(password, rounds)\<close>, \<open>createAnalytics()\<close>,
  \<open>createUser({firstName, lastName, email, phone})\<close>,
  \<open>createAccount({userId, provider, providerAccountId, type, password})\<close>,
  \<open>incOrDecrementAnalytics\<close> with its counters, \<open>newUserSignupEmailTemplate\<close> with
  the first name, \<open>sendEmail(recipients, subject, html)\<close>, and \<open>console.error\<close>.
\<close>

datatype call =
    Call_User_exists string
  | Call_bcrypt_hash string nat
  | Call_createAnalytics
  | Call_createUser string string string "phone option"
  | Call_createAccount objectId string objectId string string
  | Call_incOrDecrementAnalytics "(string \<times> int) list"
  | Call_newUserSignupEmailTemplate string
  | Call_sendEmail "string list" string string
  | Console_error exn

text \<open>
  The collaborators are parameters. Each answers with a value or throws, and its
  answer may depend on everything done before: it is given the calls made so far.
  \<open>User.exists\<close> answers \<open>null\<close> (\<open>None\<close>) or a document; \<open>createUser\<close> answers the
  \<open>_id\<close> of the record it made.
\<close>

record services =
  User_exists :: "call list \<Rightarrow> string \<Rightarrow> exn + objectId option"
  bcrypt_hash :: "call list \<Rightarrow> string \<Rightarrow> nat \<Rightarrow> exn + string"
  createAnalytics :: "call list \<Rightarrow> exn + unit"
  createUser :: "call list \<Rightarrow> string \<Rightarrow> string \<Rightarrow> string \<Rightarrow> phone option \<Rightarrow> exn + objectId"
  createAccount ::
    "call list \<Rightarrow> objectId \<Rightarrow> string \<Rightarrow> objectId \<Rightarrow> string \<Rightarrow> string \<Rightarrow> exn + unit"
  incOrDecrementAnalytics :: "call list \<Rightarrow> (string \<times> int) list \<Rightarrow> exn + unit"
  newUserSignupEmailTemplate :: "call list \<Rightarrow> string \<Rightarrow> exn + string"
  sendEmail :: "call list \<Rightarrow> string list \<Rightarrow> string \<Rightarrow> string \<Rightarrow> exn + unit"

text \<open>
  The result of the action: \<open>{success: false, error: {...}}\<close> with its per-field
  errors, \<open>{success: false, message}\<close>, or \<open>{success: true, message}\<close>.
\<close>

datatype action_result =
    Field_errors "string \<rightharpoonup> string"
  | Failure_message string
  | Success_message string

text \<open>
  The body of the \<open>try\<close> (lines 64 to 96), from the calls made so far: the first
  exception ends it, and the calls made until then stay made.
\<close>

definition signUp_try :: "services \<Rightarrow> call list \<Rightarrow> signup_data \<Rightarrow> (exn + unit) \<times> call list" where
  "signUp_try S h0 data =
     (let h1 = h0 @ [Call_createAnalytics] in
      case createAnalytics S h0 of
        Inl err \<Rightarrow> (Inl err, h1)
      | Inr u1 \<Rightarrow>
     (let h2 = h1 @ [Call_createUser (firstname data) (lastname data) (email data) (phone data)] in
      case createUser S h1 (firstname data) (lastname data) (email data) (phone data) of
        Inl err \<Rightarrow> (Inl err, h2)
      | Inr userId \<Rightarrow>
     (let h3 = h2 @ [Call_createAccount userId ''credentials'' userId ''credentials''
                       (password data)] in
      case createAccount S h2 userId ''credentials'' userId ''credentials'' (password data) of
        Inl err \<Rightarrow> (Inl err, h3)
      | Inr u2 \<Rightarrow>
     (let h4 = h3 @ [Call_incOrDecrementAnalytics [(''totalUsersSignedUp'', 1)]] in
      case incOrDecrementAnalytics S h3 [(''totalUsersSignedUp'', 1)] of
        Inl err \<Rightarrow> (Inl err, h4)
      | Inr u3 \<Rightarrow>
     (let h5 = h4 @ [Call_newUserSignupEmailTemplate (firstname data)] in
      case newUserSignupEmailTemplate S h4 (firstname data) of
        Inl err \<Rightarrow> (Inl err, h5)
      | Inr htmlEmail \<Rightarrow>
     (let h6 = h5 @ [Call_sendEmail [email data] ''Welcome to Golobe'' htmlEmail] in
      case sendEmail S h5 [email data] ''Welcome to Golobe'' htmlEmail of
        Inl err \<Rightarrow> (Inl err, h6)
      | Inr u4 \<Rightarrow> (Inr (), h6)))))))"

text \<open>
  \<open>signUpAction\<close> on the entries of the submitted form, from the calls made so far:
  its result, or the exception it rejects with, and the calls made at its end.
\<close>

definition signUpAction ::
  "env \<Rightarrow> services \<Rightarrow> call list \<Rightarrow> (string \<times> jsval) list \<Rightarrow> (exn + action_result) \<times> call list" where
  "signUpAction E S h0 formData =
     (case validateSignupFormData E (Object_fromEntries formData) of
        Inl e \<Rightarrow> (Inl e, h0)
      | Inr (Validation_failure errors) \<Rightarrow> (Inr (Field_errors errors), h0)
      | Inr (Validation_success data0) \<Rightarrow>
          (let h1 = h0 @ [Call_User_exists (email data0)] in
           case User_exists S h0 (email data0) of
             Inl e \<Rightarrow> (Inl e, h1)
           | Inr (Some isUserExist) \<Rightarrow>
               (Inr (Field_errors [''email'' \<mapsto> ''User already exists'']), h1)
           | Inr None \<Rightarrow>
               (let h2 = h1 @ [Call_bcrypt_hash (password data0) 10] in
                case bcrypt_hash S h1 (password data0) 10 of
                  Inl e \<Rightarrow> (Inl e, h2)
                | Inr passwordHash \<Rightarrow>
                    (case signUp_try S h2 (data0\<lparr>password := passwordHash\<rparr>) of
                       (Inr u, h3) \<Rightarrow> (Inr (Success_message ''User created successfully''), h3)
                     | (Inl err, h3) \<Rightarrow>
                         (Inr (Failure_message ''Something went wrong, try again''),
                          h3 @ [Console_error err])))))"

subsection \<open>Reading the results of the validation\<close>

text \<open>
  The phone field parses: it is absent or a string, and the transform decodes it,
  without an exception, to nothing or to an object whose \<open>number\<close> and \<open>dialCode\<close>
  are strings. These are the values on which the parser of the field neither throws
  nor aborts.
\<close>

definition phone_parses :: "env \<Rightarrow> jsval \<Rightarrow> bool" where
  "phone_parses E v =
     (case (case v of JUndefined \<Rightarrow> Some None | JStr t \<Rightarrow> Some (Some t) | _ \<Rightarrow> None) of
        None \<Rightarrow> False
      | Some val \<Rightarrow>
          (case phone_transform E val of
             Inl e \<Rightarrow> False
           | Inr None \<Rightarrow> True
           | Inr (Some (JObj obj)) \<Rightarrow>
               is_string (get_property obj ''number'') \<and> is_string (get_property obj ''dialCode'')
           | Inr (Some p) \<Rightarrow> False))"

subsection \<open>Surroundings for the concrete examples\<close>

text \<open>
  An e-mail pattern that asks for an \<open>@\<close>, and a decoder that knows four JSON texts.
\<close>

definition example_JSON_parse :: "string \<Rightarrow> jsval option" where
  "example_JSON_parse s =
     (if s = ''{}'' then Some (JObj [])
      else if s = ''null'' then Some JNull
      else if s = ''[]'' then Some (JArr [])
      else if s = ''0'' then Some (JNum 0)
      else None)"

definition example_env :: env where
  "example_env =
     \<lparr>email_regex = (\<lambda>s. CHR ''@'' \<in> set s),
      JSON_parse = example_JSON_parse,
      isValidJSON = (\<lambda>val. case val of None \<Rightarrow> False | Some s \<Rightarrow> example_JSON_parse s \<noteq> None)\<rparr>"

text \<open>Collaborators that all succeed, and the form of a new user.\<close>

definition example_services :: services where
  "example_services =
     \<lparr>User_exists = (\<lambda>h e. Inr None),
      bcrypt_hash = (\<lambda>h p rounds. Inr (''$2b$10$'' @ p)),
      createAnalytics = (\<lambda>h. Inr ()),
      createUser = (\<lambda>h f l e p. Inr (ObjectId ''65b0'')),
      createAccount = (\<lambda>h u p a t pw. Inr ()),
      incOrDecrementAnalytics = (\<lambda>h counters. Inr ()),
      newUserSignupEmailTemplate = (\<lambda>h n. Inr (''Welcome '' @ n)),
      sendEmail = (\<lambda>h to subject html. Inr ())\<rparr>"

definition example_form :: "(string \<times> jsval) list" where
  "example_form =
     [(''email'', JStr ''a@b.co''), (''password'', JStr ''password1''),
      (''confirmPassword'', JStr ''password1''), (''firstname'', JStr ''Ann''),
      (''lastname'', JStr ''Lee''), (''acceptTerms'', JStr ''on'')]"

definition example_data :: signup_data where
  "example_data =
     \<lparr>email = ''a@b.co'', password = ''password1'', confirmPassword = ''password1'',
      firstname = ''Ann'', lastname = ''Lee'', acceptTerms = ''on'', phone = None\<rparr>"

section \<open>Properties of lib/db/createOperationDB.js\<close>

subsection \<open>Trimming\<close>

lemma dropWhile_all: "\<forall>x\<in>set xs. P x \<Longrightarrow> dropWhile P xs = []"
  by simp

lemma trim_all_ws: "\<forall>c\<in>set s. isWhiteSpace c \<Longrightarrow> trim s = []"
  unfolding trim_def by (simp add: dropWhile_all)

lemma processModelName_ws:
  "\<forall>c\<in>set s. isWhiteSpace c \<Longrightarrow>
     processModelName s = Inl (TypeError ''processedModelName[0].toUpperCase'')"
  by (simp add: processModelName_def trim_all_ws)

subsection \<open>The unexpected-keys check\<close>

text \<open>
  C1. Let the entity name resolve to a model and let the record be an object. If some
  key of the record lies outside the schema's declared fields and \<open>_id\<close>, then
  \<open>validatorOneDoc\<close> returns, without calling a collaborator, the unexpected-keys
  error whose message lists exactly the offending keys, in the order of the record,
  and after them the schema's declared fields, in the order of their declaration
  (\<open>_id\<close> is accepted on a record and is not in that list). If every key of the
  record lies inside, the result is never the unexpected-keys error.
\<close>

theorem validatorOneDoc_unexpected_keys:
  assumes "processModelName name = Inr p" and "dataModels p = Some m"
  shows "((\<exists>k\<in>set (map fst kvs). k \<notin> set (schema_obj_keys m) \<union> {''_id''}) \<longrightarrow>
            validatorOneDoc dataModels (JStr name) (JObj kvs) =
              (Error_value (Keys_not_allowed
                 (''The following keys are not allowed: '' @
                  join '', '' (filter (\<lambda>k. k \<notin> set (schema_obj_keys m) \<union> {''_id''})
                                (map fst kvs)) @
                  '', Only '' @ join '', '' (schema_obj_keys m) @ '' are allowed'')), []))
       \<and> ((\<forall>k\<in>set (map fst kvs). k \<in> set (schema_obj_keys m) \<union> {''_id''}) \<longrightarrow>
            (\<forall>e. fst (validatorOneDoc dataModels (JStr name) (JObj kvs)) = Error_value e \<longrightarrow>
                 kind_of e \<noteq> UnexpectedFields))"
proof -
  let ?extra = "findOnlyUniqueElements (map fst kvs)
                  (schema_obj_keys m @ [''_id'']) (schema_obj_keys m @ [''_id''])"
  have extra: "?extra = filter (\<lambda>k. k \<notin> set (schema_obj_keys m) \<union> {''_id''}) (map fst kvs)"
    unfolding findOnlyUniqueElements_def by (rule filter_cong) auto
  have nonempty: "(?extra \<noteq> []) = (\<exists>k\<in>set (map fst kvs). k \<notin> set (schema_obj_keys m) \<union> {''_id''})"
    unfolding extra by (auto simp: filter_empty_conv)
  show ?thesis
    using assms nonempty extra
    by (auto simp: validatorOneDoc_def Let_def keys_not_allowed_message_def split: option.splits)
qed

theorem validatorOneDoc_unexpected_keys_witness:
  "processModelName '' user'' = Inr ''User'' \<and> example_models ''User'' = Some user_model
   \<and> validatorOneDoc example_models (JStr '' user'')
        (JObj [(''email'', JStr ''a@b.co''), (''role'', JNum 1), (''_id'', JNull), (''age'', JNum 3)]) =
      (Error_value (Keys_not_allowed
         ''The following keys are not allowed: role, age, Only email, firstName are allowed''), [])
   \<and> fst (validatorOneDoc example_models (JStr '' user'')
        (JObj [(''_id'', JNull), (''email'', JStr ''a@b.co'')])) = Validated ''User''
          [(''_id'', JNull), (''email'', JStr ''a@b.co'')]"
proof -
  have p: "processModelName '' user'' = Inr ''User''" by code_simp
  have m: "example_models ''User'' = Some user_model" by (simp add: example_models_def)
  show ?thesis
    using validatorOneDoc_unexpected_keys [of "'' user''" "''User''" example_models user_model
            "[(''email'', JStr ''a@b.co''), (''role'', JNum 1), (''_id'', JNull), (''age'', JNum 3)]"]
          validatorOneDoc_unexpected_keys [of "'' user''" "''User''" example_models user_model
            "[(''_id'', JNull), (''email'', JStr ''a@b.co'')]"]
    by (simp add: p m user_model_def validatorOneDoc_def findOnlyUniqueElements_def)
qed

subsection \<open>The type checks and the unknown model\<close>

text \<open>
  C2 fails as it is written: with a name that is a string and resolves to no model, a
  \<open>null\<close> record is answered by the unknown-model error, not by a type error, since
  the model is looked up (line 40) before the record is inspected (line 44).
\<close>

theorem validatorOneDoc_null_record_unknown_model:
  "\<not> is_plain_object JNull
   \<and> validatorOneDoc example_models (JStr ''ghost'') JNull =
       (Error_value (Not_a_valid_model ''Ghost''), [])
   \<and> kind_of (Not_a_valid_model ''Ghost'') \<noteq> TypeMismatch"
proof -
  have "processModelName ''ghost'' = Inr ''Ghost''" by code_simp
  then show ?thesis by (simp add: validatorOneDoc_def example_models_def)
qed

text \<open>
  C2, as the code has it. \<open>validatorOneDoc\<close> returns the type error on the name
  whenever the entity name is not a string, whatever the record. For a string whose
  processed name resolves to a model, it returns the type error on the record whenever
  the record is \<open>null\<close>, an array or not an object. For a string whose processed name
  resolves to no model it returns the unknown-model error whatever the record is, and
  the unknown-model error is returned in no other case.
\<close>

theorem validatorOneDoc_type_mismatch:
  "(\<not> is_string modelName \<longrightarrow>
      validatorOneDoc dataModels modelName data = (Error_value (Not_a_string modelName), []))
 \<and> (processModelName name = Inr p \<and> dataModels p = Some m \<and> \<not> is_plain_object data \<longrightarrow>
      validatorOneDoc dataModels (JStr name) data = (Error_value (Not_an_object data), []))
 \<and> (processModelName name = Inr p \<and> dataModels p = None \<longrightarrow>
      validatorOneDoc dataModels (JStr name) data = (Error_value (Not_a_valid_model p), []))
 \<and> (fst (validatorOneDoc dataModels modelName data) = Error_value err \<and>
     kind_of err = UnknownEntity \<longrightarrow>
      (\<exists>name p. modelName = JStr name \<and> processModelName name = Inr p \<and> dataModels p = None))"
proof (intro conjI impI)
  assume "\<not> is_string modelName"
  then show "validatorOneDoc dataModels modelName data = (Error_value (Not_a_string modelName), [])"
    by (cases modelName) (simp_all add: validatorOneDoc_def)
next
  assume "processModelName name = Inr p \<and> dataModels p = None"
  then show "validatorOneDoc dataModels (JStr name) data = (Error_value (Not_a_valid_model p), [])"
    by (simp add: validatorOneDoc_def)
next
  assume "processModelName name = Inr p \<and> dataModels p = Some m \<and> \<not> is_plain_object data"
  then show "validatorOneDoc dataModels (JStr name) data = (Error_value (Not_an_object data), [])"
    by (cases data) (simp_all add: validatorOneDoc_def)
next
  assume "fst (validatorOneDoc dataModels modelName data) = Error_value err \<and>
          kind_of err = UnknownEntity"
  then show "\<exists>name p. modelName = JStr name \<and> processModelName name = Inr p \<and> dataModels p = None"
    by (cases modelName; cases data)
       (auto simp: validatorOneDoc_def Let_def split: sum.splits option.splits if_splits)
qed

theorem validatorOneDoc_type_mismatch_witness:
  "\<not> is_string (JNum 7)
   \<and> validatorOneDoc example_models (JNum 7) (JObj []) = (Error_value (Not_a_string (JNum 7)), [])
   \<and> processModelName ''user'' = Inr ''User'' \<and> example_models ''User'' = Some user_model
   \<and> \<not> is_plain_object (JArr [])
   \<and> validatorOneDoc example_models (JStr ''user'') (JArr []) =
       (Error_value (Not_an_object (JArr [])), [])
   \<and> processModelName ''ghost'' = Inr ''Ghost'' \<and> example_models ''Ghost'' = None
   \<and> validatorOneDoc example_models (JStr ''ghost'') (JObj []) =
       (Error_value (Not_a_valid_model ''Ghost''), [])
   \<and> kind_of (Not_a_valid_model ''Ghost'') = UnknownEntity"
proof -
  have u: "processModelName ''user'' = Inr ''User''" by code_simp
  have g: "processModelName ''ghost'' = Inr ''Ghost''" by code_simp
  have v: "fst (validatorOneDoc example_models (JStr ''ghost'') (JObj [])) =
             Error_value (Not_a_valid_model ''Ghost'')"
    by (simp add: validatorOneDoc_def g example_models_def)
  show ?thesis
    using validatorOneDoc_type_mismatch
            [of "JNum 7" example_models "JObj []" "''user''" "''User''" user_model]
          validatorOneDoc_type_mismatch
            [of "JStr ''ghost''" example_models "JArr []" "''user''" "''User''" user_model
                "Not_a_valid_model ''Ghost''"]
          validatorOneDoc_type_mismatch
            [of "JStr ''ghost''" example_models "JObj []" "''ghost''" "''Ghost''" user_model
                "Not_a_valid_model ''Ghost''"]
    by (simp add: u g v example_models_def)
qed

subsection \<open>Bulk creation\<close>




subsection \<open>The empty entity name\<close>

text \<open>
  C10. For every entity name that is empty or all white space, \<open>validatorOneDoc\<close>
  throws the TypeError of \<open>processedModelName[0].toUpperCase()\<close> (line 38) and
  calls no collaborator; it does not return the ``is not a valid model'' error, which
  is out of reach for such a name. \<open>createOneDoc\<close> throws that same TypeError.
\<close>

theorem validatorOneDoc_blank_name_throws:
  assumes "\<forall>c\<in>set name. isWhiteSpace c"
  shows "validatorOneDoc dataModels (JStr name) data =
           (Thrown (TypeError ''processedModelName[0].toUpperCase''), [])
       \<and> createOneDoc dataModels (JStr name) data =
           (Throws (TypeError ''processedModelName[0].toUpperCase''), [])
       \<and> fst (validatorOneDoc dataModels (JStr name) data) \<noteq>
           Error_value (Not_a_valid_model n)"
  using assms by (simp add: validatorOneDoc_def createOneDoc_def processModelName_ws)

theorem validatorOneDoc_blank_name_throws_witness:
  "isWhiteSpace CHR '' ''
   \<and> validatorOneDoc example_models (JStr ''  '') (JObj []) =
       (Thrown (TypeError ''processedModelName[0].toUpperCase''), [])
   \<and> createOneDoc example_models (JStr '''') (JObj []) =
       (Throws (TypeError ''processedModelName[0].toUpperCase''), [])"
  using validatorOneDoc_blank_name_throws [of "''  ''" example_models "JObj []"]
        validatorOneDoc_blank_name_throws [of "''''" example_models "JObj []"]
  by (simp add: isWhiteSpace_def)


section \<open>Properties of the signup validation\<close>

subsection \<open>Issues and their keys\<close>

lemma collect_errors_snoc:
  "collect_errors (issues @ [(p, msg)]) = (collect_errors issues)(path0 p \<mapsto> msg)"
  by (simp add: collect_errors_def)

lemma collect_errors_other:
  "\<forall>(p, m)\<in>set issues. path0 p \<noteq> k \<Longrightarrow> collect_errors issues k = None"
  by (induction issues rule: rev_induct) (auto simp: collect_errors_def)

lemma collect_errors_append:
  "collect_errors (is @ js) k =
     (case collect_errors js k of None \<Rightarrow> collect_errors is k | Some m \<Rightarrow> Some m)"
  by (induction js rule: rev_induct) (auto simp: collect_errors_def)

lemma z_string_JStr:
  "z_string em cks path (JStr s) =
     (if snd (apply_checks em cks s) = [] then OK (fst (apply_checks em cks s))
      else DIRTY (fst (apply_checks em cks s)),
      map (\<lambda>msg. (path, msg)) (snd (apply_checks em cks s)))"
  by (auto simp: z_string_def split: prod.splits list.splits)

lemma z_string_not_string:
  "\<not> is_string v \<Longrightarrow>
     z_string em cks path v = (INVALID, [(path, invalid_type_message ''string'' v)])"
  by (cases v) (simp_all add: z_string_def)

lemma z_string_paths: "(q, m) \<in> set (snd (z_string em cks path v)) \<Longrightarrow> q = path"
  by (cases v) (auto simp: z_string_def split: prod.splits list.splits)

lemma z_string_value:
  "as_value (fst (z_string em cks path v)) = Some x \<Longrightarrow>
     \<exists>s. v = JStr s \<and> x = fst (apply_checks em cks s)"
  by (cases v) (auto simp: z_string_def split: prod.splits list.splits)

lemma z_string_errors_other:
  "k \<noteq> k' \<Longrightarrow> collect_errors (snd (z_string em cks (k' # ks) v)) k = None"
  by (rule collect_errors_other) (auto dest: z_string_paths simp: path0_def)

lemma phoneSchema_paths:
  assumes "(q, m) \<in> set (snd (phoneSchema em [k] v))"
  shows "path0 q = k"
proof (cases v)
  case (JObj obj)
  with assms show ?thesis
    by (auto simp: phoneSchema_def Let_def case_prod_beta path0_def dest: z_string_paths)
qed (use assms in \<open>auto simp: phoneSchema_def path0_def\<close>)

lemma z_string_optional_paths:
  "(q, m) \<in> set (snd (z_string_optional em [k] v)) \<Longrightarrow> path0 q = k"
  by (cases v) (auto simp: z_string_optional_def case_prod_beta path0_def dest: z_string_paths)

lemma phone_field_paths:
  assumes "phone_field E [k] v = Inr (r, i)" and "(q, m) \<in> set i"
  shows "path0 q = k"
proof -
  obtain r0 i0 where z: "z_string_optional (email_regex E) [k] v = (r0, i0)"
    by (cases "z_string_optional (email_regex E) [k] v")
  have i0: "(q, m) \<in> set i0 \<Longrightarrow> path0 q = k"
    using z_string_optional_paths [of q m "email_regex E" k v] by (simp add: z)
  have ph: "(q, m) \<in> set (snd (phoneSchema (email_regex E) [k] p)) \<Longrightarrow> path0 q = k" for p
    by (rule phoneSchema_paths)
  from assms i0 ph show ?thesis
    by (auto simp: phone_field_def z case_prod_beta
        split: parse_return.splits sum.splits option.splits)
qed

lemma phone_field_errors_other:
  "phone_field E [k'] v = Inr (r, i) \<Longrightarrow> k \<noteq> k' \<Longrightarrow> collect_errors i k = None"
  by (rule collect_errors_other) (auto dest: phone_field_paths)

lemma regex_on_iff: "regex_on s \<longleftrightarrow> (\<exists>pre post. s = pre @ ''on'' @ post)"
proof
  show "regex_on s \<Longrightarrow> \<exists>pre post. s = pre @ ''on'' @ post"
  proof (induction s rule: regex_on.induct)
    case (1 a b cs)
    show ?case
    proof (cases "a = CHR ''o'' \<and> b = CHR ''n''")
      case True
      then have "a # b # cs = [] @ ''on'' @ cs" by simp
      then show ?thesis by blast
    next
      case False
      with 1 obtain pre post where "b # cs = pre @ ''on'' @ post" by auto
      then have "a # b # cs = (a # pre) @ ''on'' @ post" by simp
      then show ?thesis by blast
    qed
  qed simp_all
next
  assume "\<exists>pre post. s = pre @ ''on'' @ post"
  then obtain pre post where s: "s = pre @ ''on'' @ post" by blast
  have "regex_on (pre @ ''on'' @ post)"
  proof (induction pre)
    case Nil
    show ?case by simp
  next
    case (Cons a pre)
    then show ?case by (cases "pre @ ''on'' @ post") auto
  qed
  with s show "regex_on s" by simp
qed

lemma as_value_z_string: "as_value (fst (z_string em cks path v)) = None \<longleftrightarrow> \<not> is_string v"
  by (cases v) (auto simp: z_string_def split: prod.splits list.splits)

lemma phoneSchema_not_aborted:
  "fst (phoneSchema em path p) \<noteq> INVALID \<longleftrightarrow>
     (\<exists>obj. p = JObj obj \<and> is_string (get_property obj ''number'') \<and>
        is_string (get_property obj ''dialCode''))"
proof (cases p)
  case (JObj obj)
  show ?thesis
    by (auto simp: JObj phoneSchema_def Let_def case_prod_beta as_value_z_string
        split: option.splits dest!: z_string_value)
qed (simp_all add: phoneSchema_def)

lemma phone_parses_iff:
  "phone_parses E v \<longleftrightarrow> (\<exists>r i. phone_field E [''phone''] v = Inr (r, i) \<and> r \<noteq> INVALID)"
proof -
  have m: "map_parse_return Some r \<noteq> INVALID \<longleftrightarrow> r \<noteq> INVALID" for r :: "phone parse_return"
    by (cases r) simp_all
  have core: "(case phone_transform E val of
             Inl e \<Rightarrow> False
           | Inr None \<Rightarrow> True
           | Inr (Some (JObj obj)) \<Rightarrow>
               is_string (get_property obj ''number'') \<and> is_string (get_property obj ''dialCode'')
           | Inr (Some p) \<Rightarrow> False) \<longleftrightarrow>
        (\<exists>r i'. (case phone_transform E val of
             Inl e \<Rightarrow> Inl e
           | Inr None \<Rightarrow> Inr (OK None, i)
           | Inr (Some p) \<Rightarrow>
               (case phoneSchema (email_regex E) [''phone''] p of
                  (r, i') \<Rightarrow> Inr (map_parse_return Some r, i @ i'))) = Inr (r, i') \<and> r \<noteq> INVALID)"
    for val i
    using phoneSchema_not_aborted [of "email_regex E" "[''phone'']"]
    by (auto simp: m case_prod_beta split: sum.splits option.splits jsval.splits)
  show ?thesis
  proof (cases v)
    case JUndefined
    then show ?thesis
      using core [of None "[]"]
      by (simp add: phone_parses_def phone_field_def z_string_optional_def)
  next
    case (JStr t)
    then show ?thesis
      using core [of "Some t" "[]"]
      by (simp add: phone_parses_def phone_field_def z_string_optional_def z_string_def)
  qed (simp_all add: phone_parses_def phone_field_def z_string_optional_def z_string_def)
qed

subsection \<open>The object of the signup schema\<close>

lemma signup_object_issues:
  assumes "signup_object E data = Inr (r, issues)"
  shows "\<exists>r7 i7. phone_field E [''phone''] (get_property data ''phone'') = Inr (r7, i7) \<and>
     issues =
       snd (z_string (email_regex E)
              [Trim, Min 1 ''Email is required'', Email ''Invalid email address'']
              [''email''] (get_property data ''email'')) @
       snd (z_string (email_regex E) [Min 8 ''Password must be at least 8 characters'']
              [''password''] (get_property data ''password'')) @
       snd (z_string (email_regex E) [Min 1 ''Confirm password is required'']
              [''confirmPassword''] (get_property data ''confirmPassword'')) @
       snd (z_string (email_regex E) [Trim, Min 1 ''First name is required'']
              [''firstname''] (get_property data ''firstname'')) @
       snd (z_string (email_regex E) [Trim, Min 1 ''Last name is required'']
              [''lastname''] (get_property data ''lastname'')) @
       snd (z_string (email_regex E)
              [Regex regex_on ''You must accept the terms and conditions'']
              [''acceptTerms''] (get_property data ''acceptTerms'')) @
       i7"
  using assms
  by (auto simp: signup_object_def Let_def case_prod_beta split: sum.splits)

lemma signup_object_errors_acceptTerms:
  assumes "signup_object E data = Inr (r, issues)"
  shows "collect_errors issues ''acceptTerms'' =
     collect_errors (snd (z_string (email_regex E)
              [Regex regex_on ''You must accept the terms and conditions'']
              [''acceptTerms''] (get_property data ''acceptTerms''))) ''acceptTerms''"
proof -
  from signup_object_issues [OF assms] obtain r7 i7
    where ph: "phone_field E [''phone''] (get_property data ''phone'') = Inr (r7, i7)"
      and issues: "issues =
       snd (z_string (email_regex E)
              [Trim, Min 1 ''Email is required'', Email ''Invalid email address'']
              [''email''] (get_property data ''email'')) @
       snd (z_string (email_regex E) [Min 8 ''Password must be at least 8 characters'']
              [''password''] (get_property data ''password'')) @
       snd (z_string (email_regex E) [Min 1 ''Confirm password is required'']
              [''confirmPassword''] (get_property data ''confirmPassword'')) @
       snd (z_string (email_regex E) [Trim, Min 1 ''First name is required'']
              [''firstname''] (get_property data ''firstname'')) @
       snd (z_string (email_regex E) [Trim, Min 1 ''Last name is required'']
              [''lastname''] (get_property data ''lastname'')) @
       snd (z_string (email_regex E)
              [Regex regex_on ''You must accept the terms and conditions'']
              [''acceptTerms''] (get_property data ''acceptTerms'')) @
       i7"
    by blast
  have i7: "collect_errors i7 ''acceptTerms'' = None"
    using ph by (rule phone_field_errors_other) simp
  show ?thesis
    unfolding issues
    by (simp add: collect_errors_append z_string_errors_other i7 split: option.splits)
qed

lemma signup_object_value:
  assumes "signup_object E data = Inr (r, issues)" and "as_value r = Some v"
  shows "get_property data ''password'' = JStr (password v)
       \<and> get_property data ''confirmPassword'' = JStr (confirmPassword v)
       \<and> get_property data ''acceptTerms'' = JStr (acceptTerms v)"
  using assms
  by (auto simp: signup_object_def Let_def case_prod_beta
      split: sum.splits option.splits if_splits dest!: z_string_value)

lemma signup_object_not_aborted:
  assumes "is_string (get_property data ''email'')"
    and "is_string (get_property data ''password'')"
    and "is_string (get_property data ''confirmPassword'')"
    and "is_string (get_property data ''firstname'')"
    and "is_string (get_property data ''lastname'')"
    and "is_string (get_property data ''acceptTerms'')"
    and "phone_field E [''phone''] (get_property data ''phone'') = Inr (r7, i7)"
    and "r7 \<noteq> INVALID"
  shows "\<exists>r issues v. signup_object E data = Inr (r, issues) \<and> as_value r = Some v"
proof -
  have str: "is_string x \<Longrightarrow> \<exists>s. x = JStr s" for x by (cases x) simp_all
  from assms(1-6) [THEN str] obtain s1 s2 s3 s4 s5 s6 where
    "get_property data ''email'' = JStr s1" "get_property data ''password'' = JStr s2"
    "get_property data ''confirmPassword'' = JStr s3" "get_property data ''firstname'' = JStr s4"
    "get_property data ''lastname'' = JStr s5" "get_property data ''acceptTerms'' = JStr s6"
    by blast
  moreover from assms(8) obtain v7 where "as_value r7 = Some v7" by (cases r7) simp_all
  ultimately show ?thesis
    using assms(7)
    by (simp add: signup_object_def Let_def case_prod_beta z_string_JStr)
qed

subsection \<open>Password confirmation\<close>

text \<open>
  C7 fails as it is written: with the terms left unchecked (the field is absent from
  the submission) and two different passwords, the object aborts on the missing
  field, the refinement does not run, and the error mapping has no entry at
  \<open>confirmPassword\<close>.
\<close>

theorem validateSignupFormData_mismatch_without_terms:
  "get_property
     [(''email'', JStr ''a@b.co''), (''password'', JStr ''password1''),
      (''confirmPassword'', JStr ''password2''), (''firstname'', JStr ''Ann''),
      (''lastname'', JStr ''Lee'')] ''password'' \<noteq>
   get_property
     [(''email'', JStr ''a@b.co''), (''password'', JStr ''password1''),
      (''confirmPassword'', JStr ''password2''), (''firstname'', JStr ''Ann''),
      (''lastname'', JStr ''Lee'')] ''confirmPassword''
   \<and> validateSignupFormData example_env
        [(''email'', JStr ''a@b.co''), (''password'', JStr ''password1''),
         (''confirmPassword'', JStr ''password2''), (''firstname'', JStr ''Ann''),
         (''lastname'', JStr ''Lee'')] =
       Inr (Validation_failure [''acceptTerms'' \<mapsto> ''Required''])
   \<and> [''acceptTerms'' \<mapsto> ''Required''] ''confirmPassword'' = None"
  by (simp add: validateSignupFormData_def signupSchema_def signup_object_def
      phone_field_def z_string_optional_def phone_transform_def z_string_def
      get_property_def example_env_def invalid_type_message_def trim_def isWhiteSpace_def
      collect_errors_def path0_def)

text \<open>
  C7, as the code has it. For every submission in which the password field and the
  confirmPassword field are unequal, \<open>validateSignupFormData\<close> does not succeed. When
  moreover no field fails its type check (email, password, confirmPassword, firstname,
  lastname and acceptTerms are strings, and the phone field is absent or a string and
  is decoded, without an exception, to nothing or to an object whose number and
  dialCode are strings), it returns a failure result whose error mapping has
  ``Passwords do not match'' at the key \<open>confirmPassword\<close>.
\<close>

theorem validateSignupFormData_passwords_differ:
  assumes "get_property formData ''password'' \<noteq> get_property formData ''confirmPassword''"
  shows "validateSignupFormData E formData \<noteq> Inr (Validation_success d)
       \<and> (is_string (get_property formData ''email'') \<and>
          is_string (get_property formData ''password'') \<and>
          is_string (get_property formData ''confirmPassword'') \<and>
          is_string (get_property formData ''firstname'') \<and>
          is_string (get_property formData ''lastname'') \<and>
          is_string (get_property formData ''acceptTerms'') \<and>
          phone_parses E (get_property formData ''phone'') \<longrightarrow>
            (\<exists>errors. validateSignupFormData E formData = Inr (Validation_failure errors) \<and>
               errors ''confirmPassword'' = Some ''Passwords do not match''))"
proof (intro conjI impI)
  show "validateSignupFormData E formData \<noteq> Inr (Validation_success d)"
  proof
    assume "validateSignupFormData E formData = Inr (Validation_success d)"
    then obtain issues where "signupSchema E formData = Inr (OK d, issues)"
      by (auto simp: validateSignupFormData_def split: sum.splits parse_return.splits)
    then obtain issues' where o: "signup_object E formData = Inr (OK d, issues')"
      and eq: "password d = confirmPassword d"
      by (auto simp: signupSchema_def split: sum.splits parse_return.splits if_splits)
    from signup_object_value [OF o] eq assms show False by simp
  qed
next
  assume h: "is_string (get_property formData ''email'') \<and>
          is_string (get_property formData ''password'') \<and>
          is_string (get_property formData ''confirmPassword'') \<and>
          is_string (get_property formData ''firstname'') \<and>
          is_string (get_property formData ''lastname'') \<and>
          is_string (get_property formData ''acceptTerms'') \<and>
          phone_parses E (get_property formData ''phone'')"
  then obtain r7 i7
    where ph: "phone_field E [''phone''] (get_property formData ''phone'') = Inr (r7, i7)"
      and r7: "r7 \<noteq> INVALID"
    by (auto simp: phone_parses_iff)
  from h ph r7 obtain r issues v
    where o: "signup_object E formData = Inr (r, issues)" and v: "as_value r = Some v"
    using signup_object_not_aborted [of formData E r7 i7] by blast
  from signup_object_value [OF o v] assms have ne: "password v \<noteq> confirmPassword v"
    by auto
  from v have "r = OK v \<or> r = DIRTY v" by (cases r) simp_all
  with o ne have "validateSignupFormData E formData =
      Inr (Validation_failure
        (collect_errors (issues @ [([''confirmPassword''], ''Passwords do not match'')])))"
    by (auto simp: validateSignupFormData_def signupSchema_def)
  then show "\<exists>errors. validateSignupFormData E formData = Inr (Validation_failure errors) \<and>
               errors ''confirmPassword'' = Some ''Passwords do not match''"
    by (simp add: collect_errors_snoc path0_def)
qed

theorem validateSignupFormData_passwords_differ_witness:
  "get_property
     [(''email'', JStr ''a@b.co''), (''password'', JStr ''password1''),
      (''confirmPassword'', JStr ''password2''), (''firstname'', JStr ''Ann''),
      (''lastname'', JStr ''Lee''), (''acceptTerms'', JStr ''on'')] ''password'' \<noteq>
   get_property
     [(''email'', JStr ''a@b.co''), (''password'', JStr ''password1''),
      (''confirmPassword'', JStr ''password2''), (''firstname'', JStr ''Ann''),
      (''lastname'', JStr ''Lee''), (''acceptTerms'', JStr ''on'')] ''confirmPassword''
   \<and> is_string (get_property
     [(''email'', JStr ''a@b.co''), (''password'', JStr ''password1''),
      (''confirmPassword'', JStr ''password2''), (''firstname'', JStr ''Ann''),
      (''lastname'', JStr ''Lee''), (''acceptTerms'', JStr ''on'')] ''acceptTerms'')
   \<and> phone_parses example_env (get_property
     [(''email'', JStr ''a@b.co''), (''password'', JStr ''password1''),
      (''confirmPassword'', JStr ''password2''), (''firstname'', JStr ''Ann''),
      (''lastname'', JStr ''Lee''), (''acceptTerms'', JStr ''on'')] ''phone'')
   \<and> validateSignupFormData example_env
     [(''email'', JStr ''a@b.co''), (''password'', JStr ''password1''),
      (''confirmPassword'', JStr ''password2''), (''firstname'', JStr ''Ann''),
      (''lastname'', JStr ''Lee''), (''acceptTerms'', JStr ''on'')] =
   Inr (Validation_failure [''confirmPassword'' \<mapsto> ''Passwords do not match''])"
  using validateSignupFormData_passwords_differ [of
     "[(''email'', JStr ''a@b.co''), (''password'', JStr ''password1''),
      (''confirmPassword'', JStr ''password2''), (''firstname'', JStr ''Ann''),
      (''lastname'', JStr ''Lee''), (''acceptTerms'', JStr ''on'')]" example_env]
  by (simp add: validateSignupFormData_def signupSchema_def signup_object_def
      phone_field_def z_string_optional_def phone_transform_def z_string_def phone_parses_def
      get_property_def example_env_def trim_def isWhiteSpace_def
      collect_errors_def path0_def)

subsection \<open>A phone without a truthy value\<close>

text \<open>
  C8. For every submission that is valid in its other fields (an e-mail address that
  matches after trimming, a password of at least 8 characters and its equal
  confirmation, first and last names that are not blank, terms that match) and whose
  phone field is a string that \<open>isValidJSON\<close> accepts and \<open>JSON.parse\<close> decodes to an
  object all of whose values are falsy, the empty object included,
  \<open>validateSignupFormData\<close> succeeds and the phone of the returned data is
  \<open>undefined\<close>.
\<close>

theorem validateSignupFormData_falsy_phone:
  assumes "get_property formData ''email'' = JStr e" "trim e \<noteq> []" "email_regex E (trim e)"
    and "get_property formData ''password'' = JStr p" "8 \<le> length p"
    and "get_property formData ''confirmPassword'' = JStr p"
    and "get_property formData ''firstname'' = JStr f" "trim f \<noteq> []"
    and "get_property formData ''lastname'' = JStr l" "trim l \<noteq> []"
    and "get_property formData ''acceptTerms'' = JStr a" "regex_on a"
    and "get_property formData ''phone'' = JStr t" "isValidJSON E (Some t)"
    and "JSON_parse E t = Some (JObj obj)" "\<forall>v\<in>set (map snd obj). \<not> Boolean v"
  shows "validateSignupFormData E formData =
           Inr (Validation_success
             \<lparr>email = trim e, password = p, confirmPassword = p, firstname = trim f,
              lastname = trim l, acceptTerms = a, phone = None\<rparr>)"
proof -
  have [simp]: "p \<noteq> []" using assms(5) by auto
  have ph: "phone_field E [''phone''] (JStr t) = Inr (OK None, [])"
    using assms(14-16)
    by (auto simp: phone_field_def z_string_optional_def z_string_def phone_transform_def
        list_ex_iff)
  have "signup_object E formData =
          Inr (OK \<lparr>email = trim e, password = p, confirmPassword = p, firstname = trim f,
              lastname = trim l, acceptTerms = a, phone = None\<rparr>, [])"
    using assms(1-13) ph
    by (simp add: signup_object_def z_string_JStr)
  then show ?thesis
    by (simp add: validateSignupFormData_def signupSchema_def)
qed

theorem validateSignupFormData_falsy_phone_witness:
  "JSON_parse example_env ''{}'' = Some (JObj []) \<and> isValidJSON example_env (Some ''{}'')
   \<and> validateSignupFormData example_env
        [(''email'', JStr '' a@b.co''), (''password'', JStr ''password1''),
         (''confirmPassword'', JStr ''password1''), (''firstname'', JStr ''Ann''),
         (''lastname'', JStr ''Lee''), (''acceptTerms'', JStr ''on''), (''phone'', JStr ''{}'')] =
       Inr (Validation_success
         \<lparr>email = ''a@b.co'', password = ''password1'', confirmPassword = ''password1'',
          firstname = ''Ann'', lastname = ''Lee'', acceptTerms = ''on'', phone = None\<rparr>)"
proof -
  have t: "trim '' a@b.co'' = ''a@b.co''" "trim ''Ann'' = ''Ann''" "trim ''Lee'' = ''Lee''"
    by code_simp+
  have j: "JSON_parse example_env ''{}'' = Some (JObj [])" "isValidJSON example_env (Some ''{}'')"
    "email_regex example_env ''a@b.co''"
    by (simp_all add: example_env_def example_JSON_parse_def)
  show ?thesis
    using validateSignupFormData_falsy_phone [of
        "[(''email'', JStr '' a@b.co''), (''password'', JStr ''password1''),
         (''confirmPassword'', JStr ''password1''), (''firstname'', JStr ''Ann''),
         (''lastname'', JStr ''Lee''), (''acceptTerms'', JStr ''on''), (''phone'', JStr ''{}'')]"
        "'' a@b.co''" example_env "''password1''" "''Ann''" "''Lee''" "''on''" "''{}''" "[]"]
    by (simp add: t j get_property_def)
qed

subsection \<open>Acceptance of the terms\<close>

text \<open>
  C9. For every submission whose acceptTerms field is a string, the pattern matches
  exactly when the string contains \<open>on\<close> somewhere, as \<open>none\<close> and \<open>monday\<close> do: a
  validation that succeeds has such a string, and a validation that fails has the
  error ``You must accept the terms and conditions'' at the key \<open>acceptTerms\<close> exactly
  when the string has no occurrence of \<open>on\<close>, and no error at that key otherwise.
\<close>

theorem validateSignupFormData_acceptTerms:
  assumes "get_property formData ''acceptTerms'' = JStr s"
  shows "(regex_on s \<longleftrightarrow> (\<exists>pre post. s = pre @ ''on'' @ post))
       \<and> (validateSignupFormData E formData = Inr (Validation_success d) \<longrightarrow>
            regex_on s \<and> acceptTerms d = s)
       \<and> (validateSignupFormData E formData = Inr (Validation_failure errors) \<longrightarrow>
            errors ''acceptTerms'' =
              (if regex_on s then None
               else Some ''You must accept the terms and conditions''))"
proof (intro conjI impI)
  show "regex_on s \<longleftrightarrow> (\<exists>pre post. s = pre @ ''on'' @ post)"
    by (rule regex_on_iff)
next
  assume "validateSignupFormData E formData = Inr (Validation_success d)"
  then obtain issues where "signupSchema E formData = Inr (OK d, issues)"
    by (auto simp: validateSignupFormData_def split: sum.splits parse_return.splits)
  then obtain issues' where o: "signup_object E formData = Inr (OK d, issues')"
    by (auto simp: signupSchema_def split: sum.splits parse_return.splits if_splits)
  from signup_object_value [OF o] assms show "acceptTerms d = s" by simp
  from o assms show "regex_on s"
    by (auto simp: signup_object_def Let_def case_prod_beta z_string_JStr
        split: sum.splits option.splits if_splits)
next
  assume "validateSignupFormData E formData = Inr (Validation_failure errors)"
  then obtain r issues where s: "signupSchema E formData = Inr (r, issues)"
    and e: "errors = collect_errors issues"
    by (auto simp: validateSignupFormData_def split: sum.splits parse_return.splits)
  from s obtain r' issues' where o: "signup_object E formData = Inr (r', issues')"
    and i: "issues = issues' \<or>
            issues = issues' @ [([''confirmPassword''], ''Passwords do not match'')]"
    by (auto simp: signupSchema_def split: sum.splits parse_return.splits if_splits)
  from i have "collect_errors issues ''acceptTerms'' = collect_errors issues' ''acceptTerms''"
    by (auto simp: collect_errors_snoc path0_def)
  also have "\<dots> = (if regex_on s then None
               else Some ''You must accept the terms and conditions'')"
    unfolding signup_object_errors_acceptTerms [OF o]
    by (simp add: assms z_string_JStr collect_errors_def path0_def)
  finally show "errors ''acceptTerms'' =
      (if regex_on s then None else Some ''You must accept the terms and conditions'')"
    by (simp add: e)
qed

theorem validateSignupFormData_acceptTerms_witness:
  "regex_on ''none'' \<and> regex_on ''monday'' \<and> \<not> regex_on ''off''
   \<and> validateSignupFormData example_env
        [(''email'', JStr ''a@b.co''), (''password'', JStr ''password1''),
         (''confirmPassword'', JStr ''password1''), (''firstname'', JStr ''Ann''),
         (''lastname'', JStr ''Lee''), (''acceptTerms'', JStr ''monday'')] =
       Inr (Validation_success
         \<lparr>email = ''a@b.co'', password = ''password1'', confirmPassword = ''password1'',
          firstname = ''Ann'', lastname = ''Lee'', acceptTerms = ''monday'', phone = None\<rparr>)
   \<and> validateSignupFormData example_env
        [(''email'', JStr ''a@b.co''), (''password'', JStr ''password1''),
         (''confirmPassword'', JStr ''password1''), (''firstname'', JStr ''Ann''),
         (''lastname'', JStr ''Lee''), (''acceptTerms'', JStr ''off'')] =
       Inr (Validation_failure
         [''acceptTerms'' \<mapsto> ''You must accept the terms and conditions''])"
  using validateSignupFormData_acceptTerms [of
        "[(''email'', JStr ''a@b.co''), (''password'', JStr ''password1''),
         (''confirmPassword'', JStr ''password1''), (''firstname'', JStr ''Ann''),
         (''lastname'', JStr ''Lee''), (''acceptTerms'', JStr ''monday'')]" "''monday''" example_env]
      validateSignupFormData_acceptTerms [of
        "[(''email'', JStr ''a@b.co''), (''password'', JStr ''password1''),
         (''confirmPassword'', JStr ''password1''), (''firstname'', JStr ''Ann''),
         (''lastname'', JStr ''Lee''), (''acceptTerms'', JStr ''off'')]" "''off''" example_env]
  by (simp add: validateSignupFormData_def signupSchema_def signup_object_def
      phone_field_def z_string_optional_def phone_transform_def z_string_def
      get_property_def example_env_def trim_def isWhiteSpace_def
      collect_errors_def path0_def)

section \<open>Properties of signUpAction\<close>

lemma example_form_valid:
  "validateSignupFormData example_env (Object_fromEntries example_form) =
     Inr (Validation_success example_data)"
  by (simp add: validateSignupFormData_def signupSchema_def signup_object_def
      phone_field_def z_string_optional_def phone_transform_def z_string_def
      get_property_def example_env_def trim_def isWhiteSpace_def
      Object_fromEntries_def example_form_def example_data_def)

subsection \<open>The duplicate check\<close>

text \<open>
  C5. For every submission that passes the validation and whose e-mail address
  \<open>User.exists\<close> finds, \<open>signUpAction\<close> returns the failure result with the error
  ``User already exists'' on the field \<open>email\<close>, and the query is the only call it
  makes: no password is hashed, no analytics created or incremented, no user and no
  account created, no e-mail rendered or sent.
\<close>

theorem signUpAction_duplicate_user:
  assumes "validateSignupFormData E (Object_fromEntries formData) = Inr (Validation_success data)"
    and "User_exists S h (email data) = Inr (Some user)"
  shows "signUpAction E S h formData =
           (Inr (Field_errors [''email'' \<mapsto> ''User already exists'']),
            h @ [Call_User_exists (email data)])"
  using assms by (simp add: signUpAction_def)

theorem signUpAction_duplicate_user_witness:
  "validateSignupFormData example_env (Object_fromEntries example_form) =
     Inr (Validation_success example_data)
   \<and> User_exists (example_services\<lparr>User_exists := \<lambda>h e. Inr (Some (ObjectId ''65b0''))\<rparr>)
        [] (email example_data) = Inr (Some (ObjectId ''65b0''))
   \<and> signUpAction example_env
        (example_services\<lparr>User_exists := \<lambda>h e. Inr (Some (ObjectId ''65b0''))\<rparr>)
        [] example_form =
       (Inr (Field_errors [''email'' \<mapsto> ''User already exists'']),
        [Call_User_exists ''a@b.co''])"
  using signUpAction_duplicate_user [of example_env example_form example_data
          "example_services\<lparr>User_exists := \<lambda>h e. Inr (Some (ObjectId ''65b0''))\<rparr>"
          "[]" "ObjectId ''65b0''"]
  by (simp add: example_form_valid) (simp add: example_data_def)

subsection \<open>An exception in the side effects\<close>

text \<open>
  C6. For every submission that passes the validation and the duplicate check, and
  whose password is hashed: whichever step of the \<open>try\<close> is the first to throw (the
  creation of the analytics, of the user, of the account, the increment of the
  counter, the rendering or the sending of the e-mail), \<open>signUpAction\<close> returns the
  failure result that carries the message ``Something went wrong, try again'' and
  nothing else. The calls made are the steps up to the one that threw, each once, and
  after it the \<open>console.error\<close> only: nothing undoes the steps that were completed.
\<close>

theorem signUpAction_generic_failure:
  assumes "validateSignupFormData E (Object_fromEntries formData) = Inr (Validation_success data)"
    and "User_exists S h (email data) = Inr None"
    and "bcrypt_hash S (h @ [Call_User_exists (email data)]) (password data) 10 = Inr passwordHash"
  shows
    "let h2 = h @ [Call_User_exists (email data), Call_bcrypt_hash (password data) 10];
         failure = Inr (Failure_message ''Something went wrong, try again'');
         analytics = Call_createAnalytics;
         user = Call_createUser (firstname data) (lastname data) (email data) (phone data);
         account = (\<lambda>userId.
           Call_createAccount userId ''credentials'' userId ''credentials'' passwordHash);
         counter = Call_incOrDecrementAnalytics [(''totalUsersSignedUp'', 1)];
         render = Call_newUserSignupEmailTemplate (firstname data);
         send = (\<lambda>htmlEmail. Call_sendEmail [email data] ''Welcome to Golobe'' htmlEmail)
     in (createAnalytics S h2 = Inl err \<longrightarrow>
           signUpAction E S h formData = (failure, h2 @ [analytics, Console_error err]))
      \<and> (createAnalytics S h2 = Inr () \<and>
          createUser S (h2 @ [analytics]) (firstname data) (lastname data) (email data)
            (phone data) = Inl err \<longrightarrow>
           signUpAction E S h formData = (failure, h2 @ [analytics, user, Console_error err]))
      \<and> (createAnalytics S h2 = Inr () \<and>
          createUser S (h2 @ [analytics]) (firstname data) (lastname data) (email data)
            (phone data) = Inr userId \<and>
          createAccount S (h2 @ [analytics, user]) userId ''credentials'' userId ''credentials''
            passwordHash = Inl err \<longrightarrow>
           signUpAction E S h formData =
             (failure, h2 @ [analytics, user, account userId, Console_error err]))
      \<and> (createAnalytics S h2 = Inr () \<and>
          createUser S (h2 @ [analytics]) (firstname data) (lastname data) (email data)
            (phone data) = Inr userId \<and>
          createAccount S (h2 @ [analytics, user]) userId ''credentials'' userId ''credentials''
            passwordHash = Inr () \<and>
          incOrDecrementAnalytics S (h2 @ [analytics, user, account userId])
            [(''totalUsersSignedUp'', 1)] = Inl err \<longrightarrow>
           signUpAction E S h formData =
             (failure, h2 @ [analytics, user, account userId, counter, Console_error err]))
      \<and> (createAnalytics S h2 = Inr () \<and>
          createUser S (h2 @ [analytics]) (firstname data) (lastname data) (email data)
            (phone data) = Inr userId \<and>
          createAccount S (h2 @ [analytics, user]) userId ''credentials'' userId ''credentials''
            passwordHash = Inr () \<and>
          incOrDecrementAnalytics S (h2 @ [analytics, user, account userId])
            [(''totalUsersSignedUp'', 1)] = Inr () \<and>
          newUserSignupEmailTemplate S (h2 @ [analytics, user, account userId, counter])
            (firstname data) = Inl err \<longrightarrow>
           signUpAction E S h formData =
             (failure, h2 @ [analytics, user, account userId, counter, render, Console_error err]))
      \<and> (createAnalytics S h2 = Inr () \<and>
          createUser S (h2 @ [analytics]) (firstname data) (lastname data) (email data)
            (phone data) = Inr userId \<and>
          createAccount S (h2 @ [analytics, user]) userId ''credentials'' userId ''credentials''
            passwordHash = Inr () \<and>
          incOrDecrementAnalytics S (h2 @ [analytics, user, account userId])
            [(''totalUsersSignedUp'', 1)] = Inr () \<and>
          newUserSignupEmailTemplate S (h2 @ [analytics, user, account userId, counter])
            (firstname data) = Inr htmlEmail \<and>
          sendEmail S (h2 @ [analytics, user, account userId, counter, render])
            [email data] ''Welcome to Golobe'' htmlEmail = Inl err \<longrightarrow>
           signUpAction E S h formData =
             (failure,
              h2 @ [analytics, user, account userId, counter, render, send htmlEmail,
                    Console_error err]))"
  using assms
  by (simp add: signUpAction_def signUp_try_def Let_def)

theorem signUpAction_generic_failure_witness:
  "validateSignupFormData example_env (Object_fromEntries example_form) =
     Inr (Validation_success example_data)
   \<and> signUpAction example_env
        (example_services\<lparr>createAnalytics := \<lambda>h. Inl (External ''analytics'')\<rparr>)
        [] example_form =
       (Inr (Failure_message ''Something went wrong, try again''),
        [Call_User_exists ''a@b.co'',
         Call_bcrypt_hash ''password1'' 10,
         Call_createAnalytics,
         Console_error (External ''analytics'')])
   \<and> signUpAction example_env
        (example_services\<lparr>createUser := \<lambda>h f l e p. Inl (External ''user'')\<rparr>)
        [] example_form =
       (Inr (Failure_message ''Something went wrong, try again''),
        [Call_User_exists ''a@b.co'',
         Call_bcrypt_hash ''password1'' 10,
         Call_createAnalytics,
         Call_createUser ''Ann'' ''Lee'' ''a@b.co'' None,
         Console_error (External ''user'')])
   \<and> signUpAction example_env
        (example_services\<lparr>createAccount := \<lambda>h u p a t pw. Inl (External ''account'')\<rparr>)
        [] example_form =
       (Inr (Failure_message ''Something went wrong, try again''),
        [Call_User_exists ''a@b.co'',
         Call_bcrypt_hash ''password1'' 10,
         Call_createAnalytics,
         Call_createUser ''Ann'' ''Lee'' ''a@b.co'' None,
         Call_createAccount (ObjectId ''65b0'') ''credentials'' (ObjectId ''65b0'')
           ''credentials'' ''$2b$10$password1'',
         Console_error (External ''account'')])
   \<and> signUpAction example_env
        (example_services\<lparr>incOrDecrementAnalytics := \<lambda>h counters. Inl (External ''counter'')\<rparr>)
        [] example_form =
       (Inr (Failure_message ''Something went wrong, try again''),
        [Call_User_exists ''a@b.co'',
         Call_bcrypt_hash ''password1'' 10,
         Call_createAnalytics,
         Call_createUser ''Ann'' ''Lee'' ''a@b.co'' None,
         Call_createAccount (ObjectId ''65b0'') ''credentials'' (ObjectId ''65b0'')
           ''credentials'' ''$2b$10$password1'',
         Call_incOrDecrementAnalytics [(''totalUsersSignedUp'', 1)],
         Console_error (External ''counter'')])
   \<and> signUpAction example_env
        (example_services\<lparr>newUserSignupEmailTemplate := \<lambda>h n. Inl (External ''render'')\<rparr>)
        [] example_form =
       (Inr (Failure_message ''Something went wrong, try again''),
        [Call_User_exists ''a@b.co'',
         Call_bcrypt_hash ''password1'' 10,
         Call_createAnalytics,
         Call_createUser ''Ann'' ''Lee'' ''a@b.co'' None,
         Call_createAccount (ObjectId ''65b0'') ''credentials'' (ObjectId ''65b0'')
           ''credentials'' ''$2b$10$password1'',
         Call_incOrDecrementAnalytics [(''totalUsersSignedUp'', 1)],
         Call_newUserSignupEmailTemplate ''Ann'',
         Console_error (External ''render'')])
   \<and> signUpAction example_env
        (example_services\<lparr>sendEmail := \<lambda>h to subject html. Inl (External ''send'')\<rparr>)
        [] example_form =
       (Inr (Failure_message ''Something went wrong, try again''),
        [Call_User_exists ''a@b.co'',
         Call_bcrypt_hash ''password1'' 10,
         Call_createAnalytics,
         Call_createUser ''Ann'' ''Lee'' ''a@b.co'' None,
         Call_createAccount (ObjectId ''65b0'') ''credentials'' (ObjectId ''65b0'')
           ''credentials'' ''$2b$10$password1'',
         Call_incOrDecrementAnalytics [(''totalUsersSignedUp'', 1)],
         Call_newUserSignupEmailTemplate ''Ann'',
         Call_sendEmail [''a@b.co''] ''Welcome to Golobe'' ''Welcome Ann'',
         Console_error (External ''send'')])"
proof -
  have d: "email example_data = ''a@b.co''" "password example_data = ''password1''"
    "firstname example_data = ''Ann''" "lastname example_data = ''Lee''"
    "phone example_data = None"
    by (simp_all add: example_data_def)
  have s1: "signUpAction example_env
        (example_services\<lparr>createAnalytics := \<lambda>h. Inl (External ''analytics'')\<rparr>)
        [] example_form =
       (Inr (Failure_message ''Something went wrong, try again''),
        [Call_User_exists ''a@b.co'',
         Call_bcrypt_hash ''password1'' 10,
         Call_createAnalytics,
         Console_error (External ''analytics'')])"
    using signUpAction_generic_failure [where E = example_env and formData = example_form
        and data = example_data and h = "[]" and passwordHash = "''$2b$10$password1''"
        and userId = "ObjectId ''65b0''" and htmlEmail = "''Welcome Ann''"
        and err = "External ''analytics''"
        and S = "example_services\<lparr>createAnalytics := \<lambda>h. Inl (External ''analytics'')\<rparr>"]
    by (simp add: example_form_valid d example_services_def Let_def)
  have s2: "signUpAction example_env
        (example_services\<lparr>createUser := \<lambda>h f l e p. Inl (External ''user'')\<rparr>)
        [] example_form =
       (Inr (Failure_message ''Something went wrong, try again''),
        [Call_User_exists ''a@b.co'',
         Call_bcrypt_hash ''password1'' 10,
         Call_createAnalytics,
         Call_createUser ''Ann'' ''Lee'' ''a@b.co'' None,
         Console_error (External ''user'')])"
    using signUpAction_generic_failure [where E = example_env and formData = example_form
        and data = example_data and h = "[]" and passwordHash = "''$2b$10$password1''"
        and userId = "ObjectId ''65b0''" and htmlEmail = "''Welcome Ann''"
        and err = "External ''user''"
        and S = "example_services\<lparr>createUser := \<lambda>h f l e p. Inl (External ''user'')\<rparr>"]
    by (simp add: example_form_valid d example_services_def Let_def)
  have s3: "signUpAction example_env
        (example_services\<lparr>createAccount := \<lambda>h u p a t pw. Inl (External ''account'')\<rparr>)
        [] example_form =
       (Inr (Failure_message ''Something went wrong, try again''),
        [Call_User_exists ''a@b.co'',
         Call_bcrypt_hash ''password1'' 10,
         Call_createAnalytics,
         Call_createUser ''Ann'' ''Lee'' ''a@b.co'' None,
         Call_createAccount (ObjectId ''65b0'') ''credentials'' (ObjectId ''65b0'')
           ''credentials'' ''$2b$10$password1'',
         Console_error (External ''account'')])"
    using signUpAction_generic_failure [where E = example_env and formData = example_form
        and data = example_data and h = "[]" and passwordHash = "''$2b$10$password1''"
        and userId = "ObjectId ''65b0''" and htmlEmail = "''Welcome Ann''"
        and err = "External ''account''"
        and S = "example_services\<lparr>createAccount := \<lambda>h u p a t pw. Inl (External ''account'')\<rparr>"]
    by (simp add: example_form_valid d example_services_def Let_def)
  have s4: "signUpAction example_env
        (example_services\<lparr>incOrDecrementAnalytics := \<lambda>h counters. Inl (External ''counter'')\<rparr>)
        [] example_form =
       (Inr (Failure_message ''Something went wrong, try again''),
        [Call_User_exists ''a@b.co'',
         Call_bcrypt_hash ''password1'' 10,
         Call_createAnalytics,
         Call_createUser ''Ann'' ''Lee'' ''a@b.co'' None,
         Call_createAccount (ObjectId ''65b0'') ''credentials'' (ObjectId ''65b0'')
           ''credentials'' ''$2b$10$password1'',
         Call_incOrDecrementAnalytics [(''totalUsersSignedUp'', 1)],
         Console_error (External ''counter'')])"
    using signUpAction_generic_failure [where E = example_env and formData = example_form
        and data = example_data and h = "[]" and passwordHash = "''$2b$10$password1''"
        and userId = "ObjectId ''65b0''" and htmlEmail = "''Welcome Ann''"
        and err = "External ''counter''"
        and S = "example_services\<lparr>incOrDecrementAnalytics := \<lambda>h counters. Inl (External ''counter'')\<rparr>"]
    by (simp add: example_form_valid d example_services_def Let_def)
  have s5: "signUpAction example_env
        (example_services\<lparr>newUserSignupEmailTemplate := \<lambda>h n. Inl (External ''render'')\<rparr>)
        [] example_form =
       (Inr (Failure_message ''Something went wrong, try again''),
        [Call_User_exists ''a@b.co'',
         Call_bcrypt_hash ''password1'' 10,
         Call_createAnalytics,
         Call_createUser ''Ann'' ''Lee'' ''a@b.co'' None,
         Call_createAccount (ObjectId ''65b0'') ''credentials'' (ObjectId ''65b0'')
           ''credentials'' ''$2b$10$password1'',
         Call_incOrDecrementAnalytics [(''totalUsersSignedUp'', 1)],
         Call_newUserSignupEmailTemplate ''Ann'',
         Console_error (External ''render'')])"
    using signUpAction_generic_failure [where E = example_env and formData = example_form
        and data = example_data and h = "[]" and passwordHash = "''$2b$10$password1''"
        and userId = "ObjectId ''65b0''" and htmlEmail = "''Welcome Ann''"
        and err = "External ''render''"
        and S = "example_services\<lparr>newUserSignupEmailTemplate := \<lambda>h n. Inl (External ''render'')\<rparr>"]
    by (simp add: example_form_valid d example_services_def Let_def)
  have s6: "signUpAction example_env
        (example_services\<lparr>sendEmail := \<lambda>h to subject html. Inl (External ''send'')\<rparr>)
        [] example_form =
       (Inr (Failure_message ''Something went wrong, try again''),
        [Call_User_exists ''a@b.co'',
         Call_bcrypt_hash ''password1'' 10,
         Call_createAnalytics,
         Call_createUser ''Ann'' ''Lee'' ''a@b.co'' None,
         Call_createAccount (ObjectId ''65b0'') ''credentials'' (ObjectId ''65b0'')
           ''credentials'' ''$2b$10$password1'',
         Call_incOrDecrementAnalytics [(''totalUsersSignedUp'', 1)],
         Call_newUserSignupEmailTemplate ''Ann'',
         Call_sendEmail [''a@b.co''] ''Welcome to Golobe'' ''Welcome Ann'',
         Console_error (External ''send'')])"
    using signUpAction_generic_failure [where E = example_env and formData = example_form
        and data = example_data and h = "[]" and passwordHash = "''$2b$10$password1''"
        and userId = "ObjectId ''65b0''" and htmlEmail = "''Welcome Ann''"
        and err = "External ''send''"
        and S = "example_services\<lparr>sendEmail := \<lambda>h to subject html. Inl (External ''send'')\<rparr>"]
    by (simp add: example_form_valid d example_services_def Let_def)
  from s1 s2 s3 s4 s5 s6 show ?thesis
    by (simp only: example_form_valid simp_thms)
qed

end
